theory Spec2Isabelle
  imports Main "HOL-Library.Word"
begin

section \<open>Machine types of the binding layer\<close>

text \<open>
  The binding is \<^verbatim>\<open>jni.c\<close>, compiled for a 64-bit Android ABI: \<^verbatim>\<open>jint\<close>, \<^verbatim>\<open>jsize\<close> and
  \<^verbatim>\<open>int\<close> are 32-bit two's complement, \<^verbatim>\<open>jlong\<close> and pointers are 64-bit, \<^verbatim>\<open>size_t\<close> is
  64-bit unsigned, \<^verbatim>\<open>jbyte\<close> is 8-bit. A word is read signed with \<open>sint\<close> and unsigned
  with \<open>unat\<close>; \<open>ucast\<close> keeps the low bits (C's narrowing conversion on these
  targets), \<open>scast\<close> extends the sign (C's conversion of a signed \<^verbatim>\<open>int\<close> to
  \<^verbatim>\<open>size_t\<close>). A \<^verbatim>\<open>jfloat\<close> is carried as its 32-bit pattern: the binding never computes
  with samples.
\<close>

type_synonym jint = "32 word"
type_synonym jsize = "32 word"
type_synonym jlong = "64 word"
type_synonym size_t = "64 word"
type_synonym jbyte = "8 word"
type_synonym jfloat = "32 word"

text \<open>\<^verbatim>\<open>static inline int min(int a, int b) { return (a < b) ? a : b; }\<close>\<close>

definition min_int :: "jint \<Rightarrow> jint \<Rightarrow> jint" where
  "min_int a b = (if a <s b then a else b)"

text \<open>\<^verbatim>\<open>static inline int max(int a, int b) { return (a > b) ? a : b; }\<close>\<close>

definition max_int :: "jint \<Rightarrow> jint \<Rightarrow> jint" where
  "max_int a b = (if b <s a then a else b)"

section \<open>The host runtime seen through \<^verbatim>\<open>JNIEnv\<close>\<close>

text \<open>
  A line of logcat: priority, tag, format string and the arguments of the call to
  \<^verbatim>\<open>__android_log_print\<close>.
\<close>

datatype log_priority = ANDROID_LOG_INFO | ANDROID_LOG_WARN

datatype log_arg = Arg_str string | Arg_size size_t | Arg_int jint

type_synonym log_line = "log_priority \<times> string \<times> string \<times> log_arg list"

text \<open>
  Native buffers that the runtime hands out and expects back: the elements of a byte
  or float array (\<^verbatim>\<open>Get<Type>ArrayElements\<close>) and the UTF-8 characters of a string
  (\<^verbatim>\<open>GetStringUTFChars\<close>).
\<close>

datatype native_buffer =
    Byte_elements "jbyte list"
  | Float_elements "jfloat list"
  | UTF_chars string

text \<open>
  The part of the process the binding acts on through \<^verbatim>\<open>env\<close> and the log macros:
  the lines written to logcat, the native buffers handed out and not yet released, and
  the number of local references the native code created and has not deleted.
  Allocation failures of the runtime and pending Java exceptions are not modelled: the
  source checks for neither.
\<close>

record JNIEnv =
  logcat :: "log_line list"
  held :: "native_buffer list"
  local_refs :: nat

definition TAG :: string where
  "TAG = ''JNI''"

definition android_log_print :: "log_priority \<Rightarrow> string \<Rightarrow> string \<Rightarrow> log_arg list \<Rightarrow> JNIEnv \<Rightarrow> JNIEnv" where
  "android_log_print prio tag fmt args env = env\<lparr>logcat := logcat env @ [(prio, tag, fmt, args)]\<rparr>"

definition LOGI :: "string \<Rightarrow> log_arg list \<Rightarrow> JNIEnv \<Rightarrow> JNIEnv" where
  "LOGI fmt args env = android_log_print ANDROID_LOG_INFO TAG fmt args env"

definition LOGW :: "string \<Rightarrow> log_arg list \<Rightarrow> JNIEnv \<Rightarrow> JNIEnv" where
  "LOGW fmt args env = android_log_print ANDROID_LOG_WARN TAG fmt args env"

text \<open>
  What stops a call of the binding before it returns. \<^verbatim>\<open>NewByteArray\<close> with a negative
  length aborts the process in the Android runtime; \<^verbatim>\<open>memcpy\<close> beyond the capacity of
  the destination or the source is undefined behaviour in C.
\<close>

datatype fault = Negative_array_length jint | Buffer_overrun

datatype release_mode = Copy_back | JNI_COMMIT | JNI_ABORT

definition NewByteArray :: "JNIEnv \<Rightarrow> jsize \<Rightarrow> fault + (jbyte list \<times> JNIEnv)" where
  "NewByteArray env len =
     (if len <s 0 then Inl (Negative_array_length len)
      else Inr (replicate (unat len) 0, env\<lparr>local_refs := Suc (local_refs env)\<rparr>))"

definition DeleteLocalRef :: "JNIEnv \<Rightarrow> JNIEnv" where
  "DeleteLocalRef env = env\<lparr>local_refs := local_refs env - 1\<rparr>"

definition GetByteArrayElements :: "JNIEnv \<Rightarrow> jbyte list \<Rightarrow> jbyte list \<times> JNIEnv" where
  "GetByteArrayElements env array = (array, env\<lparr>held := Byte_elements array # held env\<rparr>)"

text \<open>
  Releasing array elements gives the array as it is afterwards: with \<^verbatim>\<open>JNI_ABORT\<close> the
  buffer is freed and its contents are not copied back.
\<close>

definition ReleaseByteArrayElements ::
  "JNIEnv \<Rightarrow> jbyte list \<Rightarrow> jbyte list \<Rightarrow> release_mode \<Rightarrow> jbyte list \<times> JNIEnv" where
  "ReleaseByteArrayElements env array elems mode =
     (if mode = JNI_ABORT then array else elems,
      if mode = JNI_COMMIT then env else env\<lparr>held := remove1 (Byte_elements array) (held env)\<rparr>)"

text \<open>
  \<^verbatim>\<open>memcpy(dst, src, n)\<close> on buffers given with their capacity: the first \<open>n\<close> bytes of
  the destination become the first \<open>n\<close> bytes of the source.
\<close>

definition memcpy :: "jbyte list \<Rightarrow> jbyte list \<Rightarrow> size_t \<Rightarrow> fault + jbyte list" where
  "memcpy dst src n =
     (if unat n \<le> length dst \<and> unat n \<le> length src
      then Inr (take (unat n) src @ drop (unat n) dst)
      else Inl Buffer_overrun)"

section \<open>The Java \<^verbatim>\<open>InputStream\<close> wrapper\<close>

text \<open>
  A Java \<^verbatim>\<open>InputStream\<close> object: its state and its two methods the binding calls,
  \<^verbatim>\<open>available()\<close> and \<^verbatim>\<open>read(byte[], int, int)\<close>. Any subclass may stand behind the
  object, so both methods are arbitrary functions of the state. \<^verbatim>\<open>read\<close> yields the
  count it reports, the bytes it stored into the array, and the next state.
\<close>

record 'h InputStream =
  this :: 'h
  available :: "'h \<Rightarrow> jint \<times> 'h"
  read_into :: "'h \<Rightarrow> jbyte list \<Rightarrow> jint \<Rightarrow> jint \<Rightarrow> jint \<times> jbyte list \<times> 'h"

text \<open>A Java array keeps its length whatever a method stores into it.\<close>

definition store_bytes :: "jbyte list \<Rightarrow> jbyte list \<Rightarrow> jbyte list" where
  "store_bytes array bytes = take (length array) (bytes @ drop (length bytes) array)"

text \<open>
  \<^verbatim>\<open>CallIntMethod(env, input_stream, mid_available)\<close> and
  \<^verbatim>\<open>CallIntMethod(env, input_stream, mid_read, byte_array, 0, size_to_copy)\<close>. The method
  identifiers of the C struct are resolved from the names \<^verbatim>\<open>"available"\<close> and \<^verbatim>\<open>"read"\<close>
  when the context is built; the model dispatches to the object's methods directly.
\<close>

definition CallIntMethod_available :: "'h InputStream \<Rightarrow> jint \<times> 'h InputStream" where
  "CallIntMethod_available s = (case available s (this s) of (n, h) \<Rightarrow> (n, s\<lparr>this := h\<rparr>))"

definition CallIntMethod_read ::
  "'h InputStream \<Rightarrow> jbyte list \<Rightarrow> jint \<Rightarrow> jint \<Rightarrow> jint \<times> jbyte list \<times> 'h InputStream" where
  "CallIntMethod_read s array off len =
     (case read_into s (this s) array off len of
        (n, bytes, h) \<Rightarrow> (n, store_bytes array bytes, s\<lparr>this := h\<rparr>))"

text \<open>
  \<^verbatim>\<open>struct input_stream_context\<close>: the byte offset, the environment and the stream
  object (\<^verbatim>\<open>thiz\<close> is stored and never read).
\<close>

record 'h input_stream_context =
  offset :: size_t
  env :: JNIEnv
  input_stream :: "'h InputStream"

text \<open>
  \<^verbatim>\<open>size_t inputStreamRead(void *ctx, void *output, size_t read_size)\<close>. The output
  buffer is given with its capacity. Both arguments of \<^verbatim>\<open>min\<close> are converted to \<^verbatim>\<open>int\<close>
  by the call: \<^verbatim>\<open>read_size\<close> loses its upper 32 bits, and \<^verbatim>\<open>(size_t)avail_size\<close> comes
  back as \<^verbatim>\<open>avail_size\<close>. In \<^verbatim>\<open>size_to_copy != read_size\<close>, in the length of \<^verbatim>\<open>memcpy\<close>,
  in \<^verbatim>\<open>is->offset += size_to_copy\<close> and in the return, \<^verbatim>\<open>size_to_copy\<close> is converted to
  \<^verbatim>\<open>size_t\<close> with its sign.
\<close>

definition inputStreamRead ::
  "'h input_stream_context \<Rightarrow> jbyte list \<Rightarrow> size_t
     \<Rightarrow> fault + (size_t \<times> jbyte list \<times> 'h input_stream_context)" where
  "inputStreamRead ctx output read_size =
     (case CallIntMethod_available (input_stream ctx) of (avail_size, s1) \<Rightarrow>
      let size_to_copy = min_int (ucast read_size) (ucast (scast avail_size :: size_t)) in
      case NewByteArray (env ctx) size_to_copy of
        Inl f \<Rightarrow> Inl f
      | Inr (byte_array, env1) \<Rightarrow>
         (case CallIntMethod_read s1 byte_array 0 size_to_copy of (n_read, byte_array', s2) \<Rightarrow>
          let env2 =
                (if scast size_to_copy \<noteq> read_size \<or> size_to_copy \<noteq> n_read
                 then LOGI ''Insufficient Read: Req=%zu, ToCopy=%d, ActuallyRead=%d''
                        [Arg_size read_size, Arg_int size_to_copy, Arg_int n_read] env1
                 else env1)
          in
          case GetByteArrayElements env2 byte_array' of (byte_array_elements, env3) \<Rightarrow>
          case memcpy output byte_array_elements (scast size_to_copy) of
            Inl f \<Rightarrow> Inl f
          | Inr output' \<Rightarrow>
             (case ReleaseByteArrayElements env3 byte_array' byte_array_elements JNI_ABORT of
                (_, env4) \<Rightarrow>
              let env5 = DeleteLocalRef env4 in
              Inr (scast size_to_copy, output',
                   ctx\<lparr>offset := offset ctx + scast size_to_copy,
                       env := env5, input_stream := s2\<rparr>))))"

text \<open>\<^verbatim>\<open>bool inputStreamEof(void *ctx)\<close>: \<^verbatim>\<open>return result <= 0;\<close>\<close>

definition inputStreamEof :: "'h input_stream_context \<Rightarrow> bool \<times> 'h input_stream_context" where
  "inputStreamEof ctx =
     (case CallIntMethod_available (input_stream ctx) of (result, s1) \<Rightarrow>
        (result \<le>s 0, ctx\<lparr>input_stream := s1\<rparr>))"

text \<open>\<^verbatim>\<open>void inputStreamClose(void *ctx)\<close>: the body is empty.\<close>

definition inputStreamClose :: "'h input_stream_context \<Rightarrow> 'h input_stream_context" where
  "inputStreamClose ctx = ctx"

section \<open>The engine and the asset library, as the binding calls them\<close>

text \<open>
  \<^verbatim>\<open>whisper.h\<close> and the Android asset library are not part of the binding's source:
  their functions are parameters of the model. A pointer to \<^verbatim>\<open>struct whisper_context\<close> is a 64-bit
  value, \<^verbatim>\<open>NULL\<close> is 0, and the cast \<^verbatim>\<open>(jlong) context\<close> keeps the value.
\<close>

type_synonym whisper_context_ptr = jlong

datatype whisper_sampling_strategy = WHISPER_SAMPLING_GREEDY | WHISPER_SAMPLING_BEAM_SEARCH

text \<open>
  \<^verbatim>\<open>struct whisper_full_params\<close>: the fields that \<^verbatim>\<open>fullTranscribe\<close> assigns, and the
  sampling strategy. The other fields of the engine's struct are the extension part of
  the record, which the binding never touches.
\<close>

record whisper_full_params =
  strategy :: whisper_sampling_strategy
  n_threads :: jint
  offset_ms :: jint
  translate :: bool
  no_context :: bool
  single_segment :: bool
  print_special :: bool
  print_progress :: bool
  print_realtime :: bool
  print_timestamps :: bool
  language :: string

text \<open>
  \<^verbatim>\<open>struct whisper_model_loader\<close>: a context and the three callbacks. A callback gets
  the context and gives it back as it leaves it; \<^verbatim>\<open>read\<close> also gets the output buffer.
\<close>

record 'c whisper_model_loader =
  loader_context :: 'c
  read :: "'c \<Rightarrow> jbyte list \<Rightarrow> size_t \<Rightarrow> fault + (size_t \<times> jbyte list \<times> 'c)"
  eof :: "'c \<Rightarrow> bool \<times> 'c"
  close :: "'c \<Rightarrow> 'c"

text \<open>
  The engine: a state \<open>'e\<close> and the functions of \<^verbatim>\<open>whisper.h\<close> that the binding calls.
  A loading function runs the callbacks of the loader it is given: it yields the
  context pointer, the loader context as the callbacks left it and the next engine
  state, or the fault that stopped a callback. The result accessors only read the state.
\<close>

record ('e, 'h, 'a, 'p, 'm) whisper =
  whisper_init ::
    "'h input_stream_context whisper_model_loader \<Rightarrow> 'e
       \<Rightarrow> fault + (whisper_context_ptr \<times> 'h input_stream_context \<times> 'e)"
  whisper_init_with_params ::
    "'a whisper_model_loader \<Rightarrow> 'p \<Rightarrow> 'e \<Rightarrow> fault + (whisper_context_ptr \<times> 'a \<times> 'e)"
  whisper_init_from_file_with_params :: "string \<Rightarrow> 'p \<Rightarrow> 'e \<Rightarrow> whisper_context_ptr \<times> 'e"
  whisper_context_default_params :: 'p
  whisper_free :: "whisper_context_ptr \<Rightarrow> 'e \<Rightarrow> 'e"
  whisper_full_default_params :: "whisper_sampling_strategy \<Rightarrow> 'm whisper_full_params_scheme"
  whisper_reset_timings :: "whisper_context_ptr \<Rightarrow> 'e \<Rightarrow> 'e"
  whisper_full ::
    "whisper_context_ptr \<Rightarrow> 'm whisper_full_params_scheme \<Rightarrow> jfloat list \<Rightarrow> jint \<Rightarrow> 'e
       \<Rightarrow> jint \<times> 'e"
  whisper_print_timings :: "whisper_context_ptr \<Rightarrow> 'e \<Rightarrow> 'e"
  whisper_full_n_segments :: "whisper_context_ptr \<Rightarrow> 'e \<Rightarrow> jint"
  whisper_full_get_segment_text :: "whisper_context_ptr \<Rightarrow> jint \<Rightarrow> 'e \<Rightarrow> string"
  whisper_full_get_segment_t0 :: "whisper_context_ptr \<Rightarrow> jint \<Rightarrow> 'e \<Rightarrow> jlong"
  whisper_full_get_segment_t1 :: "whisper_context_ptr \<Rightarrow> jint \<Rightarrow> 'e \<Rightarrow> jlong"

text \<open>
  The asset library over an asset state \<open>'a\<close>. \<^verbatim>\<open>AAsset_read\<close> returns an \<^verbatim>\<open>int\<close>, the
  output buffer as it leaves it and the asset.
\<close>

record 'a asset_library =
  AAsset_read :: "'a \<Rightarrow> jbyte list \<Rightarrow> size_t \<Rightarrow> jint \<times> jbyte list \<times> 'a"
  AAsset_getRemainingLength64 :: "'a \<Rightarrow> jlong"
  AAsset_close :: "'a \<Rightarrow> 'a"

datatype asset_mode =
  AASSET_MODE_UNKNOWN | AASSET_MODE_RANDOM | AASSET_MODE_STREAMING | AASSET_MODE_BUFFER

text \<open>
  The host's asset manager maps the path of a packaged asset to the asset;
  \<^verbatim>\<open>AAssetManager_open\<close> returns \<^verbatim>\<open>NULL\<close> for a path it cannot open.
\<close>

type_synonym 'a AAssetManager = "string \<rightharpoonup> 'a"

definition AAssetManager_fromJava :: "JNIEnv \<Rightarrow> 'a AAssetManager \<Rightarrow> 'a AAssetManager" where
  "AAssetManager_fromJava jenv assetManager = assetManager"

definition AAssetManager_open :: "'a AAssetManager \<Rightarrow> string \<Rightarrow> asset_mode \<Rightarrow> 'a option" where
  "AAssetManager_open asset_manager filename mode = asset_manager filename"

subsection \<open>Strings and float arrays across the boundary\<close>

definition GetStringUTFChars :: "JNIEnv \<Rightarrow> string \<Rightarrow> string \<times> JNIEnv" where
  "GetStringUTFChars jenv str = (str, jenv\<lparr>held := UTF_chars str # held jenv\<rparr>)"

definition ReleaseStringUTFChars :: "JNIEnv \<Rightarrow> string \<Rightarrow> string \<Rightarrow> JNIEnv" where
  "ReleaseStringUTFChars jenv str chars = jenv\<lparr>held := remove1 (UTF_chars chars) (held jenv)\<rparr>"

text \<open>
  A Java string and its modified UTF-8 encoding are both the list of its characters:
  the decoding done by \<^verbatim>\<open>NewStringUTF\<close> is not modelled.
\<close>

definition NewStringUTF :: "string \<Rightarrow> string" where
  "NewStringUTF bytes = bytes"

definition GetFloatArrayElements :: "JNIEnv \<Rightarrow> jfloat list \<Rightarrow> jfloat list \<times> JNIEnv" where
  "GetFloatArrayElements jenv array = (array, jenv\<lparr>held := Float_elements array # held jenv\<rparr>)"

definition GetArrayLength :: "'x list \<Rightarrow> jsize" where
  "GetArrayLength array = word_of_nat (length array)"

definition ReleaseFloatArrayElements ::
  "JNIEnv \<Rightarrow> jfloat list \<Rightarrow> jfloat list \<Rightarrow> release_mode \<Rightarrow> jfloat list \<times> JNIEnv" where
  "ReleaseFloatArrayElements jenv array elems mode =
     (if mode = JNI_ABORT then array else elems,
      if mode = JNI_COMMIT then jenv else jenv\<lparr>held := remove1 (Float_elements array) (held jenv)\<rparr>)"

type_synonym jboolean = "8 word"

definition JNI_TRUE :: jboolean where
  "JNI_TRUE = 1"

subsection \<open>Classes and method identifiers\<close>

text \<open>
  \<^verbatim>\<open>GetObjectClass\<close> returns the class of an object as a new local reference. A
  class of the model is the object it was taken from, which carries its methods.
  \<^verbatim>\<open>GetMethodID\<close> names a method of a class by its name and signature and creates no
  reference.
\<close>

datatype jmethodID = Method_ID string string

definition GetObjectClass :: "JNIEnv \<Rightarrow> 'h InputStream \<Rightarrow> 'h InputStream \<times> JNIEnv" where
  "GetObjectClass jenv obj = (obj, jenv\<lparr>local_refs := Suc (local_refs jenv)\<rparr>)"

definition GetMethodID :: "'h InputStream \<Rightarrow> string \<Rightarrow> string \<Rightarrow> jmethodID" where
  "GetMethodID cls name sig = Method_ID name sig"

section \<open>Initialising a context\<close>

text \<open>
  \<^verbatim>\<open>Java_com_whispercpp_whisper_WhisperLib_00024Companion_initContextFromInputStream\<close>.
  \<^verbatim>\<open>inp_ctx.env\<close> points to the environment, so the loader works on the environment as
  \<^verbatim>\<open>GetObjectClass\<close> left it: with the local reference to the class of the stream, which
  the function never deletes. The two method identifiers are looked up as in the source;
  the record of the adapter context has no field for them, since the stream object of
  the model carries its methods. The call yields the handle, the environment and the
  stream as loading left them, and the engine state.
\<close>

definition Java_com_whispercpp_whisper_WhisperLib_00024Companion_initContextFromInputStream ::
  "('e, 'h, 'a, 'p, 'm) whisper \<Rightarrow> JNIEnv \<Rightarrow> 'e \<Rightarrow> 'h InputStream
     \<Rightarrow> fault + (jlong \<times> JNIEnv \<times> 'h InputStream \<times> 'e)" where
  "Java_com_whispercpp_whisper_WhisperLib_00024Companion_initContextFromInputStream
     api jenv engine stream =
     (case GetObjectClass jenv stream of (cls, env1) \<Rightarrow>
      let mid_available = GetMethodID cls ''available'' ''()I'';
          mid_read = GetMethodID cls ''read'' ''([BII)I'';
          inp_ctx = \<lparr>offset = 0, env = env1, input_stream = stream\<rparr>;
          loader = \<lparr>loader_context = inp_ctx, read = inputStreamRead,
                    eof = inputStreamEof, close = inputStreamClose\<rparr>
      in case whisper_init api loader engine of
           Inl f \<Rightarrow> Inl f
         | Inr (ctx, inp_ctx', engine') \<Rightarrow>
             Inr (ctx, env inp_ctx', input_stream inp_ctx', engine'))"

text \<open>
  \<^verbatim>\<open>asset_read\<close>, \<^verbatim>\<open>asset_is_eof\<close>, \<^verbatim>\<open>asset_close\<close>: the \<^verbatim>\<open>int\<close> that \<^verbatim>\<open>AAsset_read\<close>
  returns becomes the \<^verbatim>\<open>size_t\<close> of the callback, with its sign.
\<close>

definition asset_read ::
  "'a asset_library \<Rightarrow> 'a \<Rightarrow> jbyte list \<Rightarrow> size_t \<Rightarrow> fault + (size_t \<times> jbyte list \<times> 'a)" where
  "asset_read ndk ctx output read_size =
     (case AAsset_read ndk ctx output read_size of (n, output', ctx') \<Rightarrow>
        Inr (scast n, output', ctx'))"

definition asset_is_eof :: "'a asset_library \<Rightarrow> 'a \<Rightarrow> bool \<times> 'a" where
  "asset_is_eof ndk ctx = (AAsset_getRemainingLength64 ndk ctx \<le>s 0, ctx)"

definition asset_close :: "'a asset_library \<Rightarrow> 'a \<Rightarrow> 'a" where
  "asset_close ndk ctx = AAsset_close ndk ctx"

text \<open>
  \<^verbatim>\<open>whisper_init_from_asset\<close>: the context pointer (\<^verbatim>\<open>NULL\<close> is 0), the environment,
  the asset as loading left it (none when it was not opened) and the engine state.
\<close>

definition whisper_init_from_asset ::
  "('e, 'h, 'a, 'p, 'm) whisper \<Rightarrow> 'a asset_library \<Rightarrow> JNIEnv \<Rightarrow> 'a AAssetManager \<Rightarrow> string \<Rightarrow> 'e
     \<Rightarrow> fault + (whisper_context_ptr \<times> JNIEnv \<times> 'a option \<times> 'e)" where
  "whisper_init_from_asset api ndk jenv assetManager asset_path engine =
     (let env1 = LOGI ''Loading model from asset '%s'\<newline>'' [Arg_str asset_path] jenv;
          asset_manager = AAssetManager_fromJava env1 assetManager
      in case AAssetManager_open asset_manager asset_path AASSET_MODE_STREAMING of
           None \<Rightarrow>
             Inr (0, LOGW ''Failed to open '%s'\<newline>'' [Arg_str asset_path] env1, None, engine)
         | Some asset \<Rightarrow>
            (let loader = \<lparr>loader_context = asset, read = asset_read ndk,
                            eof = asset_is_eof ndk, close = asset_close ndk\<rparr>
             in case whisper_init_with_params api loader (whisper_context_default_params api) engine of
                  Inl f \<Rightarrow> Inl f
                | Inr (ctx, asset', engine') \<Rightarrow> Inr (ctx, env1, Some asset', engine')))"

text \<open>\<^verbatim>\<open>Java_com_whispercpp_whisper_WhisperLib_initContextFromAsset\<close>\<close>

definition Java_com_whispercpp_whisper_WhisperLib_initContextFromAsset ::
  "('e, 'h, 'a, 'p, 'm) whisper \<Rightarrow> 'a asset_library \<Rightarrow> JNIEnv \<Rightarrow> 'e \<Rightarrow> 'a AAssetManager \<Rightarrow> string
     \<Rightarrow> fault + (jlong \<times> JNIEnv \<times> 'a option \<times> 'e)" where
  "Java_com_whispercpp_whisper_WhisperLib_initContextFromAsset
     api ndk jenv engine assetManager asset_path_str =
     (case GetStringUTFChars jenv asset_path_str of (asset_path_chars, env1) \<Rightarrow>
      case whisper_init_from_asset api ndk env1 assetManager asset_path_chars engine of
        Inl f \<Rightarrow> Inl f
      | Inr (ctx, env2, asset, engine') \<Rightarrow>
          Inr (ctx, ReleaseStringUTFChars env2 asset_path_str asset_path_chars, asset, engine'))"

text \<open>\<^verbatim>\<open>Java_com_whispercpp_whisper_WhisperLib_initContext\<close>\<close>

definition Java_com_whispercpp_whisper_WhisperLib_initContext ::
  "('e, 'h, 'a, 'p, 'm) whisper \<Rightarrow> JNIEnv \<Rightarrow> 'e \<Rightarrow> string \<Rightarrow> jlong \<times> JNIEnv \<times> 'e" where
  "Java_com_whispercpp_whisper_WhisperLib_initContext api jenv engine model_path_str =
     (case GetStringUTFChars jenv model_path_str of (model_path_chars, env1) \<Rightarrow>
      case whisper_init_from_file_with_params api model_path_chars
             (whisper_context_default_params api) engine of
        (ctx, engine') \<Rightarrow>
          (ctx, ReleaseStringUTFChars env1 model_path_str model_path_chars, engine'))"

section \<open>Freeing a context\<close>

text \<open>\<^verbatim>\<open>Java_com_whispercpp_whisper_WhisperLib_Companion_freeContext\<close>\<close>

definition Java_com_whispercpp_whisper_WhisperLib_Companion_freeContext ::
  "('e, 'h, 'a, 'p, 'm) whisper \<Rightarrow> 'e \<Rightarrow> jlong \<Rightarrow> 'e" where
  "Java_com_whispercpp_whisper_WhisperLib_Companion_freeContext api engine context_ptr =
     whisper_free api context_ptr engine"

section \<open>Transcribing\<close>

text \<open>
  \<^verbatim>\<open>Java_com_whispercpp_whisper_WhisperLib_fullTranscribe\<close> returns \<^verbatim>\<open>void\<close>: the model
  gives what the call leaves behind, namely the environment, the Java sample array and
  the engine state. \<^verbatim>\<open>transcribe_params\<close> is the block that builds \<^verbatim>\<open>params\<close>.
\<close>

definition transcribe_params ::
  "('e, 'h, 'a, 'p, 'm) whisper \<Rightarrow> string \<Rightarrow> jint \<Rightarrow> jboolean \<Rightarrow> 'm whisper_full_params_scheme" where
  "transcribe_params api lang_cstr num_threads translate_flag =
     (whisper_full_default_params api WHISPER_SAMPLING_GREEDY)
       \<lparr>translate := (translate_flag = JNI_TRUE),
        print_realtime := False,
        print_progress := False,
        print_timestamps := False,
        print_special := False,
        language := lang_cstr,
        n_threads := num_threads,
        offset_ms := 0,
        no_context := True,
        single_segment := False\<rparr>"

definition Java_com_whispercpp_whisper_WhisperLib_fullTranscribe ::
  "('e, 'h, 'a, 'p, 'm) whisper \<Rightarrow> JNIEnv \<Rightarrow> 'e \<Rightarrow> jlong \<Rightarrow> string \<Rightarrow> jint \<Rightarrow> jboolean \<Rightarrow> jfloat list
     \<Rightarrow> JNIEnv \<times> jfloat list \<times> 'e" where
  "Java_com_whispercpp_whisper_WhisperLib_fullTranscribe
     api jenv engine context_ptr lang_str num_threads translate_flag audio_data =
     (case GetFloatArrayElements jenv audio_data of (audio_data_arr, env1) \<Rightarrow>
      let audio_data_length = GetArrayLength audio_data in
      case GetStringUTFChars env1 lang_str of (lang_cstr, env2) \<Rightarrow>
      let env3 = LOGI ''Language: %s'' [Arg_str lang_cstr] env2;
          params = transcribe_params api lang_cstr num_threads translate_flag;
          engine1 = whisper_reset_timings api context_ptr engine;
          env4 = LOGI ''About to run whisper_full'' [] env3
      in
      case whisper_full api context_ptr params audio_data_arr audio_data_length engine1 of
        (rc, engine2) \<Rightarrow>
      let (env5, engine3) =
            (if rc \<noteq> 0 then (LOGI ''Failed to run the model'' [] env4, engine2)
             else (env4, whisper_print_timings api context_ptr engine2));
          env6 = ReleaseStringUTFChars env5 lang_str lang_cstr
      in
      case ReleaseFloatArrayElements env6 audio_data audio_data_arr JNI_ABORT of
        (audio_data', env7) \<Rightarrow> (env7, audio_data', engine3))"

section \<open>Reading the segments\<close>

text \<open>\<^verbatim>\<open>Java_com_whispercpp_whisper_WhisperLib_getTextSegmentCount\<close>\<close>

definition Java_com_whispercpp_whisper_WhisperLib_getTextSegmentCount ::
  "('e, 'h, 'a, 'p, 'm) whisper \<Rightarrow> 'e \<Rightarrow> jlong \<Rightarrow> jint" where
  "Java_com_whispercpp_whisper_WhisperLib_getTextSegmentCount api engine context_ptr =
     whisper_full_n_segments api context_ptr engine"

text \<open>\<^verbatim>\<open>Java_com_whispercpp_whisper_WhisperLib_getTextSegment\<close>\<close>

definition Java_com_whispercpp_whisper_WhisperLib_getTextSegment ::
  "('e, 'h, 'a, 'p, 'm) whisper \<Rightarrow> 'e \<Rightarrow> jlong \<Rightarrow> jint \<Rightarrow> string" where
  "Java_com_whispercpp_whisper_WhisperLib_getTextSegment api engine context_ptr index =
     (let text = whisper_full_get_segment_text api context_ptr index engine
      in NewStringUTF text)"

text \<open>\<^verbatim>\<open>Java_com_whispercpp_whisper_WhisperLib_getTextSegmentT0\<close>\<close>

definition Java_com_whispercpp_whisper_WhisperLib_getTextSegmentT0 ::
  "('e, 'h, 'a, 'p, 'm) whisper \<Rightarrow> 'e \<Rightarrow> jlong \<Rightarrow> jint \<Rightarrow> jlong" where
  "Java_com_whispercpp_whisper_WhisperLib_getTextSegmentT0 api engine context_ptr index =
     whisper_full_get_segment_t0 api context_ptr index engine"

text \<open>\<^verbatim>\<open>Java_com_whispercpp_whisper_WhisperLib_getTextSegmentT1\<close>\<close>

definition Java_com_whispercpp_whisper_WhisperLib_getTextSegmentT1 ::
  "('e, 'h, 'a, 'p, 'm) whisper \<Rightarrow> 'e \<Rightarrow> jlong \<Rightarrow> jint \<Rightarrow> jlong" where
  "Java_com_whispercpp_whisper_WhisperLib_getTextSegmentT1 api engine context_ptr index =
     whisper_full_get_segment_t1 api context_ptr index engine"

section \<open>A stand-in host and engine for the examples\<close>

text \<open>
  A stream over a byte array, as \<^verbatim>\<open>java.io.ByteArrayInputStream\<close> behaves:
  \<^verbatim>\<open>available()\<close> is the number of bytes left; \<^verbatim>\<open>read\<close> reports -1 at the end, and
  otherwise hands over as many of the requested bytes as are left.
\<close>

definition ByteArrayInputStream :: "jbyte list \<Rightarrow> jbyte list InputStream" where
  "ByteArrayInputStream buf =
     \<lparr>this = buf,
      available = (\<lambda>h. (word_of_nat (length h), h)),
      read_into = (\<lambda>h b off len.
         if h = [] then (- 1, [], h)
         else (word_of_nat (min (unat len) (length h)),
               take (min (unat len) (length h)) h,
               drop (min (unat len) (length h)) h))\<rparr>"

definition ten_bytes :: "jbyte list" where
  "ten_bytes = [1, 2, 3, 4, 5, 6, 7, 8, 9, 10]"

definition fresh_env :: JNIEnv where
  "fresh_env = \<lparr>logcat = [], held = [], local_refs = 0\<rparr>"

text \<open>
  An asset library over the bytes an asset has left, and an asset manager that packages
  one model.
\<close>

definition byte_assets :: "jbyte list asset_library" where
  "byte_assets =
     \<lparr>AAsset_read = (\<lambda>a output n.
        (word_of_nat (min (unat n) (length a)),
         take (min (unat n) (length a)) a @ drop (min (unat n) (length a)) output,
         drop (min (unat n) (length a)) a)),
      AAsset_getRemainingLength64 = (\<lambda>a. word_of_nat (length a)),
      AAsset_close = (\<lambda>a. [])\<rparr>"

definition packaged_assets :: "jbyte list AAssetManager" where
  "packaged_assets = [''models/ggml-tiny.bin'' \<mapsto> ten_bytes]"

text \<open>
  An engine that keeps a journal of the calls it receives. Loading reads four bytes
  through the loader, closes it, and yields the context 0x7000, or \<^verbatim>\<open>NULL\<close> when fewer
  than four bytes came. \<open>rc\<close> is what \<^verbatim>\<open>whisper_full\<close> returns. The journal entries
  stand for the segments.
\<close>

definition stub_engine ::
  "jint \<Rightarrow> (string list, jbyte list, jbyte list, bool, unit) whisper" where
  "stub_engine rc =
     \<lparr>whisper_init = (\<lambda>loader e.
        case read loader (loader_context loader) [0, 0, 0, 0] 4 of
          Inl f \<Rightarrow> Inl f
        | Inr (n, magic, c) \<Rightarrow>
            Inr (if n = 4 then 0x7000 else 0, close loader c, e @ [''whisper_init''])),
      whisper_init_with_params = (\<lambda>loader p e.
        case read loader (loader_context loader) [0, 0, 0, 0] 4 of
          Inl f \<Rightarrow> Inl f
        | Inr (n, magic, c) \<Rightarrow>
            Inr (if n = 4 then 0x7000 else 0, close loader c, e @ [''whisper_init_with_params''])),
      whisper_init_from_file_with_params = (\<lambda>path p e.
        (if path = ''/data/ggml-tiny.bin'' then 0x7000 else 0,
         e @ [''whisper_init_from_file_with_params''])),
      whisper_context_default_params = True,
      whisper_free = (\<lambda>ctx e. e @ [''whisper_free'']),
      whisper_full_default_params = (\<lambda>s.
        \<lparr>strategy = s, n_threads = 4, offset_ms = 0, translate = False, no_context = True,
         single_segment = False, print_special = False, print_progress = True,
         print_realtime = False, print_timestamps = True, language = ''en''\<rparr>),
      whisper_reset_timings = (\<lambda>ctx e. e @ [''whisper_reset_timings'']),
      whisper_full = (\<lambda>ctx params samples n e. (rc, e @ [''whisper_full''])),
      whisper_print_timings = (\<lambda>ctx e. e @ [''whisper_print_timings'']),
      whisper_full_n_segments = (\<lambda>ctx e. word_of_nat (length e)),
      whisper_full_get_segment_text = (\<lambda>ctx i e. if unat i < length e then e ! unat i else []),
      whisper_full_get_segment_t0 = (\<lambda>ctx i e. 100 * scast i),
      whisper_full_get_segment_t1 = (\<lambda>ctx i e. 100 * scast i + 100)\<rparr>"

text \<open>
  A run of reads through the adapter, as a loader makes them: each request is an output
  buffer and a size; the run yields the counts returned.
\<close>

fun inputStreamRead_run ::
  "'h input_stream_context \<Rightarrow> (jbyte list \<times> size_t) list
     \<Rightarrow> fault + (size_t list \<times> 'h input_stream_context)" where
  "inputStreamRead_run ctx [] = Inr ([], ctx)"
| "inputStreamRead_run ctx ((output, read_size) # reqs) =
     (case inputStreamRead ctx output read_size of
        Inl f \<Rightarrow> Inl f
      | Inr (n, output', ctx') \<Rightarrow>
         (case inputStreamRead_run ctx' reqs of
            Inl f \<Rightarrow> Inl f
          | Inr (ns, ctx'') \<Rightarrow> Inr (n # ns, ctx'')))"

section \<open>Conversions between \<^verbatim>\<open>size_t\<close> and \<^verbatim>\<open>jint\<close>\<close>

lemmas jni_defs = GetFloatArrayElements_def GetArrayLength_def GetStringUTFChars_def
  ReleaseStringUTFChars_def ReleaseFloatArrayElements_def LOGI_def LOGW_def
  android_log_print_def TAG_def GetByteArrayElements_def ReleaseByteArrayElements_def
  DeleteLocalRef_def

text \<open>
  The second argument of \<^verbatim>\<open>min\<close> goes from \<^verbatim>\<open>jint\<close> to \<^verbatim>\<open>size_t\<close> and back to \<^verbatim>\<open>int\<close>
  unchanged.
\<close>

lemma int_of_size_t_of_jint: "(ucast (scast (a::jint) :: size_t) :: jint) = a"
  by (rule bit_word_eqI) (auto simp add: bit_simps)

text \<open>A size below \<open>2 ^ 31\<close> survives the conversion to \<^verbatim>\<open>int\<close>, and comes back.\<close>

lemma sint_ucast_small:
  assumes "uint (r::size_t) < 2 ^ 31"
  shows "sint (ucast r :: jint) = uint r"
proof -
  have "sint (ucast r :: jint) = signed_take_bit 31 (uint r)"
    by (simp add: signed_ucast_eq)
  also have "\<dots> = uint r"
  proof (rule signed_take_bit_int_eq_self)
    show "- (2 ^ 31) \<le> uint r" by (rule order_trans [of _ 0]) simp_all
    show "uint r < 2 ^ 31" by (rule assms)
  qed
  finally show ?thesis .
qed

lemma scast_ucast_small:
  assumes "uint (r::size_t) < 2 ^ 31"
  shows "(scast (ucast r :: jint) :: size_t) = r"
proof -
  have "(scast (ucast r :: jint) :: size_t) = word_of_int (sint (ucast r :: jint))"
    by (rule scast_eq)
  also have "\<dots> = word_of_int (uint r)"
    using assms by (simp only: sint_ucast_small)
  finally show ?thesis by simp
qed

text \<open>A non-negative \<^verbatim>\<open>jint\<close> keeps its value as a \<^verbatim>\<open>size_t\<close>.\<close>

lemma scast_nonneg_ucast:
  assumes "0 \<le> sint (a::jint)"
  shows "(scast a :: size_t) = ucast a"
proof -
  have "uint a = take_bit 32 (sint a)"
    using uint_sint [of a] by simp
  also have "\<dots> = sint a"
  proof (rule take_bit_int_eq_self)
    show "0 \<le> sint a" by (rule assms)
    have "sint a < 2 ^ 31" using sint_lt [of a] by simp
    then show "sint a < 2 ^ 32" by simp
  qed
  finally have eq: "sint a = uint a" by simp
  have "(scast a :: size_t) = word_of_int (sint a)"
    by (rule scast_eq)
  also have "\<dots> = word_of_int (uint a)"
    by (simp only: eq)
  also have "\<dots> = ucast a"
    by (rule ucast_eq [symmetric])
  finally show ?thesis .
qed

lemma unat_scast_nonneg:
  assumes "0 \<le> sint (a::jint)"
  shows "unat (scast a :: size_t) = unat a"
proof -
  have "unat a < 2 ^ 32" using unsigned_less [of a, where 'a = nat] by simp
  then have "unat a < 2 ^ 64" by simp
  then have "unat (ucast a :: size_t) = unat a"
    by (simp add: unsigned_ucast_eq take_bit_nat_eq_self)
  then show ?thesis
    by (simp only: scast_nonneg_ucast [OF assms])
qed

lemma length_store_bytes: "length (store_bytes array bytes) = length array"
  by (simp add: store_bytes_def)

section \<open>The stream adapter: what one read does\<close>

text \<open>
  One read, spelled out. When the clamped size \<open>size_to_copy\<close> is not negative and fits
  the output buffer, the call returns it, copies that many bytes of the Java array as
  the stream's \<^verbatim>\<open>read\<close> left it, advances the offset by it, and logs when it differs
  from the request or from the count the stream reported. The environment holds no more
  buffers and no more local references than before.
\<close>

lemma inputStreamRead_unfold:
  assumes av: "available (input_stream ctx) (this (input_stream ctx)) = (avail_size, h1)"
    and stc: "size_to_copy = min_int (ucast read_size) avail_size"
    and nn: "0 \<le> sint size_to_copy"
    and cap: "unat size_to_copy \<le> length output"
    and rd: "read_into (input_stream ctx) h1 (replicate (unat size_to_copy) 0) 0 size_to_copy
               = (n_read, bytes, h2)"
  shows "inputStreamRead ctx output read_size =
           Inr (scast size_to_copy,
                store_bytes (replicate (unat size_to_copy) 0) bytes @ drop (unat size_to_copy) output,
                ctx\<lparr>offset := offset ctx + scast size_to_copy,
                    env := (if scast size_to_copy \<noteq> read_size \<or> size_to_copy \<noteq> n_read
                            then LOGI ''Insufficient Read: Req=%zu, ToCopy=%d, ActuallyRead=%d''
                                   [Arg_size read_size, Arg_int size_to_copy, Arg_int n_read] (env ctx)
                            else env ctx),
                    input_stream := (input_stream ctx)\<lparr>this := h2\<rparr>\<rparr>)"
proof -
  have neg: "\<not> size_to_copy <s 0"
    using nn by (simp add: word_sless_alt)
  have n: "unat (scast size_to_copy :: size_t) = unat size_to_copy"
    by (rule unat_scast_nonneg [OF nn])
  show ?thesis
    using av rd cap neg n
    by (cases "scast size_to_copy \<noteq> read_size \<or> size_to_copy \<noteq> n_read")
       (simp_all add: inputStreamRead_def CallIntMethod_available_def CallIntMethod_read_def
          int_of_size_t_of_jint stc [symmetric] NewByteArray_def memcpy_def
          length_store_bytes jni_defs Let_def)
qed

text \<open>
  Whenever a read returns, the count it returns is the clamped size: the signed 32-bit
  minimum of the request cut to 32 bits and the available count. The offset advances by
  that count, and only the first that many bytes of the output buffer change. The count
  the stream's \<^verbatim>\<open>read\<close> reports has no part in any of them.
\<close>

lemma inputStreamRead_result:
  assumes av: "available (input_stream ctx) (this (input_stream ctx)) = (avail_size, h1)"
    and res: "inputStreamRead ctx output read_size = Inr (n, output', ctx')"
  shows "n = scast (min_int (ucast read_size) avail_size)
         \<and> 0 \<le> sint (min_int (ucast read_size) avail_size)
         \<and> offset ctx' = offset ctx + n
         \<and> output' = take (unat n) output' @ drop (unat n) output"
  using av res
  by (auto simp add: inputStreamRead_def CallIntMethod_available_def CallIntMethod_read_def
        int_of_size_t_of_jint NewByteArray_def memcpy_def jni_defs Let_def word_sless_alt
      split: prod.splits sum.splits if_splits)

text \<open>
  When the stream reports at least as many bytes as requested, the read returns the
  requested size and the output buffer starts with the bytes the stream stored.
\<close>

lemma inputStreamRead_enough_available:
  assumes av: "available (input_stream ctx) (this (input_stream ctx)) = (avail_size, h1)"
    and ge: "uint read_size \<le> sint avail_size"
    and cap: "unat read_size \<le> length output"
    and rd: "read_into (input_stream ctx) h1 (replicate (unat read_size) 0) 0 (ucast read_size)
               = (n_read, bytes, h2)"
  shows "\<exists>ctx'. inputStreamRead ctx output read_size =
           Inr (read_size,
                store_bytes (replicate (unat read_size) 0) bytes @ drop (unat read_size) output,
                ctx')
           \<and> offset ctx' = offset ctx + read_size
           \<and> this (input_stream ctx') = h2"
proof -
  have lt: "uint read_size < 2 ^ 31"
    using ge sint_lt [of avail_size] by simp
  have sr: "sint (ucast read_size :: jint) = uint read_size"
    by (rule sint_ucast_small [OF lt])
  have m: "min_int (ucast read_size) avail_size = ucast read_size"
  proof (cases "(ucast read_size :: jint) <s avail_size")
    case True
    then show ?thesis by (simp add: min_int_def)
  next
    case False
    then have "sint avail_size = sint (ucast read_size :: jint)"
      using ge sr by (simp add: word_sless_alt)
    then have "avail_size = ucast read_size"
      by (simp add: signed_word_eqI)
    then show ?thesis by (simp add: min_int_def)
  qed
  have rt: "(scast (ucast read_size :: jint) :: size_t) = read_size"
    by (rule scast_ucast_small [OF lt])
  have nn: "0 \<le> sint (ucast read_size :: jint)"
    using sr by simp
  have u: "unat (ucast read_size :: jint) = unat read_size"
    using unat_scast_nonneg [OF nn] rt by simp
  have cap': "unat (ucast read_size :: jint) \<le> length output"
    using cap by (simp only: u)
  have rd': "read_into (input_stream ctx) h1 (replicate (unat (ucast read_size :: jint)) 0) 0
               (ucast read_size) = (n_read, bytes, h2)"
    using rd by (simp only: u)
  show ?thesis
    using inputStreamRead_unfold [OF av m [symmetric] nn cap' rd']
    by (simp add: u rt)
qed

text \<open>
  When the stream reports fewer bytes than requested, the count is not negative and the
  request is below \<open>2 ^ 31\<close>, the read returns the available count and logs the
  under-read.
\<close>

lemma inputStreamRead_short_available:
  assumes av: "available (input_stream ctx) (this (input_stream ctx)) = (avail_size, h1)"
    and nn: "0 \<le> sint avail_size"
    and less: "sint avail_size < uint read_size"
    and lt: "uint read_size < 2 ^ 31"
    and cap: "unat read_size \<le> length output"
    and rd: "read_into (input_stream ctx) h1 (replicate (unat avail_size) 0) 0 avail_size
               = (n_read, bytes, h2)"
  shows "\<exists>ctx'. inputStreamRead ctx output read_size =
           Inr (scast avail_size,
                store_bytes (replicate (unat avail_size) 0) bytes @ drop (unat avail_size) output,
                ctx')
           \<and> offset ctx' = offset ctx + scast avail_size
           \<and> logcat (env ctx') = logcat (env ctx) @
                [(ANDROID_LOG_INFO, ''JNI'',
                  ''Insufficient Read: Req=%zu, ToCopy=%d, ActuallyRead=%d'',
                  [Arg_size read_size, Arg_int avail_size, Arg_int n_read])]"
proof -
  have sr: "sint (ucast read_size :: jint) = uint read_size"
    by (rule sint_ucast_small [OF lt])
  have m: "min_int (ucast read_size) avail_size = avail_size"
    using less sr by (simp add: min_int_def word_sless_alt)
  have ua: "uint (scast avail_size :: size_t) = sint avail_size"
  proof -
    have "uint (ucast avail_size :: size_t) = uint avail_size"
      by (simp add: uint_up_ucast is_up)
    moreover have "uint avail_size = sint avail_size"
    proof -
      have "uint avail_size = take_bit 32 (sint avail_size)"
        using uint_sint [of avail_size] by simp
      also have "\<dots> = sint avail_size"
      proof (rule take_bit_int_eq_self)
        show "0 \<le> sint avail_size" by (rule nn)
        have "sint avail_size < 2 ^ 31" using sint_lt [of avail_size] by simp
        then show "sint avail_size < 2 ^ 32" by simp
      qed
      finally show ?thesis .
    qed
    ultimately show ?thesis
      by (simp only: scast_nonneg_ucast [OF nn])
  qed
  have ne: "(scast avail_size :: size_t) \<noteq> read_size"
    using ua less by auto
  have i1: "int (unat avail_size) = sint avail_size"
    using ua unat_scast_nonneg [OF nn] uint_nat [of "scast avail_size :: size_t"] by simp
  have i2: "int (unat read_size) = uint read_size"
    by (rule uint_nat [symmetric])
  have "unat avail_size \<le> unat read_size"
    using less i1 i2 by linarith
  then have cap': "unat avail_size \<le> length output"
    using cap by simp
  show ?thesis
    using inputStreamRead_unfold [OF av m [symmetric] nn cap' rd] ne
    by (simp add: jni_defs)
qed

text \<open>
  After a run of reads that all return, the offset has advanced by the sum of the counts
  returned (in \<^verbatim>\<open>size_t\<close> arithmetic).
\<close>

lemma inputStreamRead_run_offset:
  "inputStreamRead_run ctx reqs = Inr (ns, ctx') \<Longrightarrow> offset ctx' = offset ctx + sum_list ns"
proof (induction reqs arbitrary: ctx ns)
  case Nil
  then show ?case by simp
next
  case (Cons req reqs)
  obtain outp read_size where req: "req = (outp, read_size)"
    by (cases req)
  obtain avail_size h1
    where av: "available (input_stream ctx) (this (input_stream ctx)) = (avail_size, h1)"
    by (cases "available (input_stream ctx) (this (input_stream ctx))")
  from Cons.prems req obtain n output' ctx1 ns1
    where one: "inputStreamRead ctx outp read_size = Inr (n, output', ctx1)"
      and rest: "inputStreamRead_run ctx1 reqs = Inr (ns1, ctx')"
      and ns: "ns = n # ns1"
    by (auto split: sum.splits)
  have "offset ctx1 = offset ctx + n"
    using inputStreamRead_result [OF av one] by simp
  moreover have "offset ctx' = offset ctx1 + sum_list ns1"
    by (rule Cons.IH [OF rest])
  ultimately show ?case
    using ns by (simp add: add.assoc)
qed

section \<open>Transcribing: failure, parameters, buffers\<close>

text \<open>
  C1. When the engine's inference run reports failure, that is \<^verbatim>\<open>whisper_full\<close> returns
  a non-zero value on the parameters and samples of the call, \<^verbatim>\<open>fullTranscribe\<close> still
  returns: the model has no fault branch and the C function returns \<^verbatim>\<open>void\<close>. All that
  the call leaves behind is three lines in logcat, the last of them the failure message;
  the environment is otherwise as before, the sample array is unchanged, and the engine
  state is the one the failed run left, from which alone the segments can be read.
\<close>

theorem fullTranscribe_failure_silent:
  assumes "whisper_full api context_ptr (transcribe_params api lang_str num_threads translate_flag)
             audio_data (GetArrayLength audio_data) (whisper_reset_timings api context_ptr engine)
           = (rc, engine2)"
    and "rc \<noteq> 0"
  shows "Java_com_whispercpp_whisper_WhisperLib_fullTranscribe
           api jenv engine context_ptr lang_str num_threads translate_flag audio_data
         = (jenv\<lparr>logcat := logcat jenv @
                [(ANDROID_LOG_INFO, ''JNI'', ''Language: %s'', [Arg_str lang_str]),
                 (ANDROID_LOG_INFO, ''JNI'', ''About to run whisper_full'', []),
                 (ANDROID_LOG_INFO, ''JNI'', ''Failed to run the model'', [])]\<rparr>,
            audio_data, engine2)"
  using assms
  by (simp add: Java_com_whispercpp_whisper_WhisperLib_fullTranscribe_def jni_defs)

theorem fullTranscribe_failure_silent_example:
  "Java_com_whispercpp_whisper_WhisperLib_fullTranscribe
     (stub_engine 1) fresh_env [] 0x7000 ''ja'' 2 1 [5, 6]
   = (\<lparr>logcat =
         [(ANDROID_LOG_INFO, ''JNI'', ''Language: %s'', [Arg_str ''ja'']),
          (ANDROID_LOG_INFO, ''JNI'', ''About to run whisper_full'', []),
          (ANDROID_LOG_INFO, ''JNI'', ''Failed to run the model'', [])],
       held = [], local_refs = 0\<rparr>,
      [5, 6], [''whisper_reset_timings'', ''whisper_full''])"
  using fullTranscribe_failure_silent
          [where api = "stub_engine 1" and jenv = fresh_env and engine = "[]"
             and context_ptr = "0x7000" and lang_str = "''ja''" and num_threads = 2
             and translate_flag = 1 and audio_data = "[5, 6]" and rc = 1
             and ?engine2.0 = "[''whisper_reset_timings'', ''whisper_full'']"]
  by (simp add: stub_engine_def fresh_env_def)

text \<open>
  C4. Every call of \<^verbatim>\<open>fullTranscribe\<close> runs \<^verbatim>\<open>whisper_full\<close> on the engine state that
  \<^verbatim>\<open>whisper_reset_timings\<close> left, with a parameter set built in that call: the engine's
  defaults for greedy sampling, with realtime, progress, timestamp and special-token
  printing off, no-context on, single-segment off, offset 0, and the caller's language,
  thread count and translate flag; every other field is the engine's default.
\<close>

theorem fullTranscribe_params_and_reset:
  "(case whisper_full api context_ptr (transcribe_params api lang_str num_threads translate_flag)
           audio_data (GetArrayLength audio_data) (whisper_reset_timings api context_ptr engine) of
      (rc, engine2) \<Rightarrow>
        snd (snd (Java_com_whispercpp_whisper_WhisperLib_fullTranscribe
                    api jenv engine context_ptr lang_str num_threads translate_flag audio_data))
        = (if rc \<noteq> 0 then engine2 else whisper_print_timings api context_ptr engine2))
   \<and> (let params = transcribe_params api lang_str num_threads translate_flag;
            defaults = whisper_full_default_params api WHISPER_SAMPLING_GREEDY
        in \<not> print_realtime params \<and> \<not> print_progress params \<and> \<not> print_timestamps params
           \<and> \<not> print_special params \<and> no_context params \<and> \<not> single_segment params
           \<and> offset_ms params = 0 \<and> language params = lang_str
           \<and> n_threads params = num_threads \<and> (translate params \<longleftrightarrow> translate_flag = JNI_TRUE)
           \<and> strategy params = strategy defaults
           \<and> whisper_full_params.more params = whisper_full_params.more defaults)"
  by (simp add: Java_com_whispercpp_whisper_WhisperLib_fullTranscribe_def jni_defs
        transcribe_params_def JNI_TRUE_def Let_def split: prod.splits)

theorem fullTranscribe_params_and_reset_example:
  "snd (snd (Java_com_whispercpp_whisper_WhisperLib_fullTranscribe
               (stub_engine 0) fresh_env [] 0x7000 ''ja'' 2 1 [5, 6]))
     = [''whisper_reset_timings'', ''whisper_full'', ''whisper_print_timings'']
   \<and> transcribe_params (stub_engine 0) ''ja'' 2 1
     = \<lparr>strategy = WHISPER_SAMPLING_GREEDY, n_threads = 2, offset_ms = 0, translate = True,
        no_context = True, single_segment = False, print_special = False,
        print_progress = False, print_realtime = False, print_timestamps = False,
        language = ''ja''\<rparr>
   \<and> transcribe_params (stub_engine 0) ''en'' 8 0
     = \<lparr>strategy = WHISPER_SAMPLING_GREEDY, n_threads = 8, offset_ms = 0, translate = False,
        no_context = True, single_segment = False, print_special = False,
        print_progress = False, print_realtime = False, print_timestamps = False,
        language = ''en''\<rparr>"
proof -
  note a = fullTranscribe_params_and_reset
          [where api = "stub_engine 0" and jenv = fresh_env and engine = "[]"
             and context_ptr = "0x7000" and lang_str = "''ja''" and num_threads = 2
             and translate_flag = 1 and audio_data = "[5, 6]"]
  note b = fullTranscribe_params_and_reset
          [where api = "stub_engine 0" and jenv = fresh_env and engine = "[]"
             and context_ptr = "0x7000" and lang_str = "''en''" and num_threads = 8
             and translate_flag = 0 and audio_data = "[5, 6]"]
  have d: "whisper_full_default_params (stub_engine 0) WHISPER_SAMPLING_GREEDY
             = \<lparr>strategy = WHISPER_SAMPLING_GREEDY, n_threads = 4, offset_ms = 0,
                translate = False, no_context = True, single_segment = False,
                print_special = False, print_progress = True, print_realtime = False,
                print_timestamps = True, language = ''en''\<rparr>"
    by (simp add: stub_engine_def)
  have f: "whisper_full (stub_engine 0) = (\<lambda>ctx params samples n e. (0, e @ [''whisper_full'']))"
    and r: "whisper_reset_timings (stub_engine 0) = (\<lambda>ctx e. e @ [''whisper_reset_timings''])"
    and p: "whisper_print_timings (stub_engine 0) = (\<lambda>ctx e. e @ [''whisper_print_timings''])"
    by (simp_all add: stub_engine_def)
  have "snd (snd (Java_com_whispercpp_whisper_WhisperLib_fullTranscribe
               (stub_engine 0) fresh_env [] 0x7000 ''ja'' 2 1 [5, 6]))
     = [''whisper_reset_timings'', ''whisper_full'', ''whisper_print_timings'']"
    using a by (simp add: f r p)
  moreover have "transcribe_params (stub_engine 0) ''ja'' 2 1
     = \<lparr>strategy = WHISPER_SAMPLING_GREEDY, n_threads = 2, offset_ms = 0, translate = True,
        no_context = True, single_segment = False, print_special = False,
        print_progress = False, print_realtime = False, print_timestamps = False,
        language = ''ja''\<rparr>"
    using a by (intro whisper_full_params.equality) (simp_all add: d Let_def JNI_TRUE_def)
  moreover have "transcribe_params (stub_engine 0) ''en'' 8 0
     = \<lparr>strategy = WHISPER_SAMPLING_GREEDY, n_threads = 8, offset_ms = 0, translate = False,
        no_context = True, single_segment = False, print_special = False,
        print_progress = False, print_realtime = False, print_timestamps = False,
        language = ''en''\<rparr>"
    using b by (intro whisper_full_params.equality) (simp_all add: d Let_def JNI_TRUE_def)
  ultimately show ?thesis by blast
qed

text \<open>
  C9. Every entry point that receives a host buffer hands it back before it returns and
  keeps nothing of it. After \<^verbatim>\<open>fullTranscribe\<close>, whatever the inference run returned, the
  environment holds the buffers and local references it held before, and the sample
  array, released with \<^verbatim>\<open>JNI_ABORT\<close>, has the contents it had. After a read of the
  stream adapter that returns, with or without an under-read, the elements of the byte
  array are released and its local reference is deleted. The same holds for the path
  strings of the asset and the file initialisers.
\<close>

theorem host_buffers_released:
  "(case Java_com_whispercpp_whisper_WhisperLib_fullTranscribe
           api jenv engine context_ptr lang_str num_threads translate_flag audio_data of
      (env', audio_data', engine') \<Rightarrow>
        held env' = held jenv \<and> local_refs env' = local_refs jenv \<and> audio_data' = audio_data)
   \<and> (\<forall>n output' ctx'.
        inputStreamRead ctx output read_size = Inr (n, output', ctx') \<longrightarrow>
        held (env ctx') = held (env ctx) \<and> local_refs (env ctx') = local_refs (env ctx))
   \<and> (\<forall>h env' asset' engine'.
        Java_com_whispercpp_whisper_WhisperLib_initContextFromAsset
          api ndk jenv engine assetManager asset_path_str = Inr (h, env', asset', engine') \<longrightarrow>
        held env' = held jenv \<and> local_refs env' = local_refs jenv)
   \<and> (case Java_com_whispercpp_whisper_WhisperLib_initContext api jenv engine model_path_str of
        (h, env', engine') \<Rightarrow> env' = jenv)"
proof (intro conjI allI impI)
  show "case Java_com_whispercpp_whisper_WhisperLib_fullTranscribe
           api jenv engine context_ptr lang_str num_threads translate_flag audio_data of
      (env', audio_data', engine') \<Rightarrow>
        held env' = held jenv \<and> local_refs env' = local_refs jenv \<and> audio_data' = audio_data"
    by (simp add: Java_com_whispercpp_whisper_WhisperLib_fullTranscribe_def jni_defs Let_def
          split: prod.splits if_splits)
next
  fix n output' ctx'
  assume "inputStreamRead ctx output read_size = Inr (n, output', ctx')"
  then have "held (env ctx') = held (env ctx) \<and> local_refs (env ctx') = local_refs (env ctx)"
    by (auto simp add: inputStreamRead_def jni_defs NewByteArray_def memcpy_def Let_def
        split: prod.splits sum.splits if_splits)
  then show "held (env ctx') = held (env ctx)" and "local_refs (env ctx') = local_refs (env ctx)"
    by simp_all
next
  fix h env' asset' engine'
  assume "Java_com_whispercpp_whisper_WhisperLib_initContextFromAsset
            api ndk jenv engine assetManager asset_path_str = Inr (h, env', asset', engine')"
  then have "held env' = held jenv \<and> local_refs env' = local_refs jenv"
    by (auto simp add: Java_com_whispercpp_whisper_WhisperLib_initContextFromAsset_def
          whisper_init_from_asset_def jni_defs Let_def AAssetManager_open_def
          AAssetManager_fromJava_def
        split: prod.splits sum.splits option.splits)
  then show "held env' = held jenv" and "local_refs env' = local_refs jenv"
    by simp_all
next
  show "case Java_com_whispercpp_whisper_WhisperLib_initContext api jenv engine model_path_str of
        (h, env', engine') \<Rightarrow> env' = jenv"
    by (simp add: Java_com_whispercpp_whisper_WhisperLib_initContext_def jni_defs
          split: prod.splits)
qed

theorem host_buffers_released_example:
  "held (fst (Java_com_whispercpp_whisper_WhisperLib_fullTranscribe (stub_engine 1)
               \<lparr>logcat = [], held = [UTF_chars ''kept''], local_refs = 2\<rparr>
               [] 0x7000 ''ja'' 2 1 [5, 6])) = [UTF_chars ''kept'']
   \<and> fst (snd (Java_com_whispercpp_whisper_WhisperLib_fullTranscribe (stub_engine 0)
               \<lparr>logcat = [], held = [UTF_chars ''kept''], local_refs = 2\<rparr>
               [] 0x7000 ''ja'' 2 1 [5, 6])) = [5, 6]
   \<and> (case inputStreamRead
              \<lparr>offset = 0, env = \<lparr>logcat = [], held = [UTF_chars ''kept''], local_refs = 2\<rparr>,
               input_stream = ByteArrayInputStream ten_bytes\<rparr> [0, 0, 0, 0] 4 of
         Inl f \<Rightarrow> False
       | Inr (n, output', ctx') \<Rightarrow>
           n = 4 \<and> held (env ctx') = [UTF_chars ''kept''] \<and> local_refs (env ctx') = 2)
   \<and> (case Java_com_whispercpp_whisper_WhisperLib_initContextFromAsset (stub_engine 0) byte_assets
              \<lparr>logcat = [], held = [UTF_chars ''kept''], local_refs = 2\<rparr> []
              packaged_assets ''models/missing.bin'' of
         Inl f \<Rightarrow> False
       | Inr (h, env', asset', engine') \<Rightarrow>
           held env' = [UTF_chars ''kept''] \<and> local_refs env' = 2)
   \<and> fst (snd (Java_com_whispercpp_whisper_WhisperLib_initContext (stub_engine 0)
               \<lparr>logcat = [], held = [UTF_chars ''kept''], local_refs = 2\<rparr> []
               ''/data/ggml-tiny.bin''))
       = \<lparr>logcat = [], held = [UTF_chars ''kept''], local_refs = 2\<rparr>"
proof -
  let ?env = "\<lparr>logcat = [], held = [UTF_chars ''kept''], local_refs = 2\<rparr>"
  let ?ctx = "\<lparr>offset = 0, env = ?env, input_stream = ByteArrayInputStream ten_bytes\<rparr>"
  have rd: "\<exists>ctx'. inputStreamRead ?ctx [0, 0, 0, 0] 4 = Inr (4, [1, 2, 3, 4], ctx')"
    using inputStreamRead_enough_available
            [where ctx = ?ctx and avail_size = 10 and ?h1.0 = ten_bytes and read_size = 4
               and ?output = "[0, 0, 0, 0]" and n_read = 4 and bytes = "[1, 2, 3, 4]"
               and ?h2.0 = "[5, 6, 7, 8, 9, 10]"]
    by (auto simp add: ByteArrayInputStream_def ten_bytes_def store_bytes_def)
  have op: "Java_com_whispercpp_whisper_WhisperLib_initContextFromAsset (stub_engine 0) byte_assets
              ?env [] packaged_assets ''models/missing.bin''
            = Inr (0, ?env\<lparr>logcat :=
                 [(ANDROID_LOG_INFO, ''JNI'', ''Loading model from asset '%s'\<newline>'',
                   [Arg_str ''models/missing.bin'']),
                  (ANDROID_LOG_WARN, ''JNI'', ''Failed to open '%s'\<newline>'',
                   [Arg_str ''models/missing.bin''])]\<rparr>, None, [])"
    by (simp add: Java_com_whispercpp_whisper_WhisperLib_initContextFromAsset_def
          whisper_init_from_asset_def jni_defs Let_def AAssetManager_open_def
          AAssetManager_fromJava_def packaged_assets_def)
  from host_buffers_released
          [where api = "stub_engine 1" and jenv = ?env and engine = "[]"
             and context_ptr = "0x7000" and lang_str = "''ja''" and num_threads = 2
             and translate_flag = 1 and audio_data = "[5, 6]" and ctx = ?ctx
             and ?output = "[0, 0, 0, 0]" and read_size = 4 and ndk = byte_assets
             and assetManager = packaged_assets and asset_path_str = "''models/missing.bin''"
             and model_path_str = "''/data/ggml-tiny.bin''"]
  have a1: "held (fst (Java_com_whispercpp_whisper_WhisperLib_fullTranscribe (stub_engine 1)
               ?env [] 0x7000 ''ja'' 2 1 [5, 6])) = [UTF_chars ''kept'']"
    by (auto split: prod.splits)
  from host_buffers_released
          [where api = "stub_engine 0" and jenv = ?env and engine = "[]"
             and context_ptr = "0x7000" and lang_str = "''ja''" and num_threads = 2
             and translate_flag = 1 and audio_data = "[5, 6]" and ctx = ?ctx
             and ?output = "[0, 0, 0, 0]" and read_size = 4 and ndk = byte_assets
             and assetManager = packaged_assets and asset_path_str = "''models/missing.bin''"
             and model_path_str = "''/data/ggml-tiny.bin''"]
  have a2: "fst (snd (Java_com_whispercpp_whisper_WhisperLib_fullTranscribe (stub_engine 0)
               ?env [] 0x7000 ''ja'' 2 1 [5, 6])) = [5, 6]"
    and a3: "\<And>n output' ctx'. inputStreamRead ?ctx [0, 0, 0, 0] 4 = Inr (n, output', ctx') \<Longrightarrow>
               held (env ctx') = [UTF_chars ''kept''] \<and> local_refs (env ctx') = 2"
    and a4: "\<And>h env' asset' engine'.
               Java_com_whispercpp_whisper_WhisperLib_initContextFromAsset (stub_engine 0)
                 byte_assets ?env [] packaged_assets ''models/missing.bin''
                 = Inr (h, env', asset', engine') \<Longrightarrow>
               held env' = [UTF_chars ''kept''] \<and> local_refs env' = 2"
    and a5: "fst (snd (Java_com_whispercpp_whisper_WhisperLib_initContext (stub_engine 0)
               ?env [] ''/data/ggml-tiny.bin'')) = ?env"
    by (auto split: prod.splits)
  from rd obtain ctx' where r: "inputStreamRead ?ctx [0, 0, 0, 0] 4 = Inr (4, [1, 2, 3, 4], ctx')"
    by blast
  have b3: "case inputStreamRead ?ctx [0, 0, 0, 0] 4 of
              Inl f \<Rightarrow> False
            | Inr (n, output', ctx') \<Rightarrow>
                n = 4 \<and> held (env ctx') = [UTF_chars ''kept''] \<and> local_refs (env ctx') = 2"
    using a3 [OF r] by (simp add: r)
  have b4: "case Java_com_whispercpp_whisper_WhisperLib_initContextFromAsset (stub_engine 0)
                   byte_assets ?env [] packaged_assets ''models/missing.bin'' of
              Inl f \<Rightarrow> False
            | Inr (h, env', asset', engine') \<Rightarrow>
                held env' = [UTF_chars ''kept''] \<and> local_refs env' = 2"
    using a4 [OF op] by (simp add: op)
  show ?thesis
    using a1 a2 b3 b4 a5 by blast
qed

section \<open>The stream adapter: end of data and the size of a read\<close>

text \<open>
  C3. \<^verbatim>\<open>eof()\<close> is true exactly when the count that the stream's \<^verbatim>\<open>available()\<close>
  reports at that call, read as a signed 32-bit number, is zero or negative.
\<close>

theorem inputStreamEof_iff:
  "fst (inputStreamEof ctx)
     \<longleftrightarrow> sint (fst (available (input_stream ctx) (this (input_stream ctx)))) \<le> 0"
  by (simp add: inputStreamEof_def CallIntMethod_available_def word_sle_eq split: prod.splits)

theorem inputStreamEof_iff_example:
  "fst (inputStreamEof \<lparr>offset = 0, env = fresh_env, input_stream = ByteArrayInputStream []\<rparr>)
   \<and> \<not> fst (inputStreamEof
              \<lparr>offset = 0, env = fresh_env, input_stream = ByteArrayInputStream ten_bytes\<rparr>)
   \<and> fst (inputStreamEof
            \<lparr>offset = 0, env = fresh_env,
             input_stream = \<lparr>this = (), available = (\<lambda>h. (- 1, h)),
                             read_into = (\<lambda>h b off len. (- 1, [], h))\<rparr>\<rparr>)"
  using inputStreamEof_iff
          [of "\<lparr>offset = 0, env = fresh_env, input_stream = ByteArrayInputStream []\<rparr>"]
        inputStreamEof_iff
          [of "\<lparr>offset = 0, env = fresh_env, input_stream = ByteArrayInputStream ten_bytes\<rparr>"]
        inputStreamEof_iff
          [of "\<lparr>offset = 0, env = fresh_env,
               input_stream = \<lparr>this = (), available = (\<lambda>h. (- 1, h)),
                               read_into = (\<lambda>h b off len. (- 1, [], h))\<rparr>\<rparr>"]
  by (simp add: ByteArrayInputStream_def ten_bytes_def)

text \<open>
  C2, at a failing input. The stream reports 10 bytes available and the request is
  \<open>2 ^ 32\<close> bytes, so the available count is the smaller value and the read ought to
  return 10. The call of \<^verbatim>\<open>min\<close> cuts the request to its low 32 bits, which are 0: the
  read asks the stream for no bytes, copies none, leaves the offset where it was, and
  returns 0. It logs the under-read.
\<close>

theorem inputStreamRead_request_cut_to_zero:
  "inputStreamRead
     \<lparr>offset = pos, env = fresh_env, input_stream = ByteArrayInputStream ten_bytes\<rparr>
     output 4294967296
   = Inr (0, output,
          \<lparr>offset = pos,
           env = \<lparr>logcat =
                    [(ANDROID_LOG_INFO, ''JNI'',
                      ''Insufficient Read: Req=%zu, ToCopy=%d, ActuallyRead=%d'',
                      [Arg_size 4294967296, Arg_int 0, Arg_int 0])],
                  held = [], local_refs = 0\<rparr>,
           input_stream = ByteArrayInputStream ten_bytes\<rparr>)"
  by (simp add: inputStreamRead_def CallIntMethod_available_def CallIntMethod_read_def
        ByteArrayInputStream_def ten_bytes_def fresh_env_def min_int_def word_sless_alt
        int_of_size_t_of_jint NewByteArray_def memcpy_def store_bytes_def jni_defs)

theorem inputStreamRead_request_cut_to_zero_example:
  "(case inputStreamRead
           \<lparr>offset = 0, env = fresh_env, input_stream = ByteArrayInputStream ten_bytes\<rparr>
           [0, 0, 0, 0] 4294967296 of
      Inl f \<Rightarrow> False
    | Inr (n, output', ctx') \<Rightarrow> n = 0 \<and> n \<noteq> 10 \<and> output' = [0, 0, 0, 0] \<and> offset ctx' = 0)"
  using inputStreamRead_request_cut_to_zero [of 0 "[0, 0, 0, 0]"]
  by simp

text \<open>
  C10, at a failing input. The stream reports 10 bytes available and the request is
  \<open>2 ^ 32 + 3\<close> bytes, so the minimum of the two is 10. The read returns 3, the low
  32 bits of the request, and advances the offset by 3. The defect is the one shown for
  C2: \<^verbatim>\<open>min\<close> takes \<^verbatim>\<open>int\<close> arguments.
\<close>

theorem inputStreamRead_count_is_low_bits:
  assumes "3 \<le> length output"
  shows "inputStreamRead
           \<lparr>offset = pos, env = fresh_env, input_stream = ByteArrayInputStream ten_bytes\<rparr>
           output 4294967299
         = Inr (3, [1, 2, 3] @ drop 3 output,
                \<lparr>offset = pos + 3,
                 env = \<lparr>logcat =
                          [(ANDROID_LOG_INFO, ''JNI'',
                            ''Insufficient Read: Req=%zu, ToCopy=%d, ActuallyRead=%d'',
                            [Arg_size 4294967299, Arg_int 3, Arg_int 3])],
                        held = [], local_refs = 0\<rparr>,
                 input_stream = ByteArrayInputStream [4, 5, 6, 7, 8, 9, 10]\<rparr>)"
  using assms
  by (simp add: inputStreamRead_def CallIntMethod_available_def CallIntMethod_read_def
        ByteArrayInputStream_def ten_bytes_def fresh_env_def min_int_def word_sless_alt
        int_of_size_t_of_jint NewByteArray_def memcpy_def store_bytes_def jni_defs)

theorem inputStreamRead_count_is_low_bits_example:
  "(case inputStreamRead
           \<lparr>offset = 100, env = fresh_env, input_stream = ByteArrayInputStream ten_bytes\<rparr>
           [0, 0, 0, 0] 4294967299 of
      Inl f \<Rightarrow> False
    | Inr (n, output', ctx') \<Rightarrow>
        n = 3 \<and> n \<noteq> 10 \<and> output' = [1, 2, 3, 0] \<and> offset ctx' = 103)"
  using inputStreamRead_count_is_low_bits [of "[0, 0, 0, 0]" 100]
  by simp

section \<open>Initialising and freeing a context\<close>

text \<open>
  C5. For an asset path that the asset manager cannot open, the asset initialiser logs
  a warning and returns the handle 0: it returns rather than faults, the engine state is
  untouched and the result is the same for every engine, so no loader of the engine has
  run. For an asset that opens, the initialiser returns what the engine's
  \<^verbatim>\<open>whisper_init_with_params\<close> returns on the loader made of the asset and the callbacks
  \<^verbatim>\<open>asset_read\<close>, \<^verbatim>\<open>asset_is_eof\<close> and \<^verbatim>\<open>asset_close\<close>, with the engine's default context
  parameters.
\<close>

theorem initContextFromAsset_open:
  "(assetManager asset_path_str = None \<longrightarrow>
      Java_com_whispercpp_whisper_WhisperLib_initContextFromAsset
        api ndk jenv engine assetManager asset_path_str
      = Inr (0,
             jenv\<lparr>logcat := logcat jenv @
               [(ANDROID_LOG_INFO, ''JNI'', ''Loading model from asset '%s'\<newline>'',
                 [Arg_str asset_path_str]),
                (ANDROID_LOG_WARN, ''JNI'', ''Failed to open '%s'\<newline>'',
                 [Arg_str asset_path_str])]\<rparr>,
             None, engine))
   \<and> (\<forall>asset. assetManager asset_path_str = Some asset \<longrightarrow>
      Java_com_whispercpp_whisper_WhisperLib_initContextFromAsset
        api ndk jenv engine assetManager asset_path_str
      = (case whisper_init_with_params api
                \<lparr>loader_context = asset, read = asset_read ndk,
                 eof = asset_is_eof ndk, close = asset_close ndk\<rparr>
                (whisper_context_default_params api) engine of
           Inl f \<Rightarrow> Inl f
         | Inr (ctx, asset', engine') \<Rightarrow>
             Inr (ctx,
                  jenv\<lparr>logcat := logcat jenv @
                    [(ANDROID_LOG_INFO, ''JNI'', ''Loading model from asset '%s'\<newline>'',
                      [Arg_str asset_path_str])]\<rparr>,
                  Some asset', engine')))"
  by (simp add: Java_com_whispercpp_whisper_WhisperLib_initContextFromAsset_def
        whisper_init_from_asset_def jni_defs Let_def AAssetManager_open_def
        AAssetManager_fromJava_def
      split: prod.splits sum.splits option.splits)

theorem initContextFromAsset_open_example:
  "Java_com_whispercpp_whisper_WhisperLib_initContextFromAsset
     (stub_engine 0) byte_assets fresh_env [] packaged_assets ''models/missing.bin''
   = Inr (0,
          \<lparr>logcat =
             [(ANDROID_LOG_INFO, ''JNI'', ''Loading model from asset '%s'\<newline>'',
               [Arg_str ''models/missing.bin'']),
              (ANDROID_LOG_WARN, ''JNI'', ''Failed to open '%s'\<newline>'',
               [Arg_str ''models/missing.bin''])],
            held = [], local_refs = 0\<rparr>,
          None, [])
   \<and> Java_com_whispercpp_whisper_WhisperLib_initContextFromAsset
       (stub_engine 0) byte_assets fresh_env [] packaged_assets ''models/ggml-tiny.bin''
     = Inr (0x7000,
            \<lparr>logcat =
               [(ANDROID_LOG_INFO, ''JNI'', ''Loading model from asset '%s'\<newline>'',
                 [Arg_str ''models/ggml-tiny.bin''])],
              held = [], local_refs = 0\<rparr>,
            Some [], [''whisper_init_with_params''])"
  using initContextFromAsset_open
          [where api = "stub_engine 0" and ndk = byte_assets and jenv = fresh_env
             and engine = "[]" and assetManager = packaged_assets
             and asset_path_str = "''models/missing.bin''"]
        initContextFromAsset_open
          [where api = "stub_engine 0" and ndk = byte_assets and jenv = fresh_env
             and engine = "[]" and assetManager = packaged_assets
             and asset_path_str = "''models/ggml-tiny.bin''"]
  by (simp add: packaged_assets_def stub_engine_def byte_assets_def fresh_env_def ten_bytes_def
        asset_read_def asset_close_def)

text \<open>
  C6. The stream initialiser returns what the engine's \<^verbatim>\<open>whisper_init\<close> returns on the
  loader made of a fresh adapter context (offset 0, bound to the stream) and the
  callbacks \<^verbatim>\<open>inputStreamRead\<close>, \<^verbatim>\<open>inputStreamEof\<close> and \<^verbatim>\<open>inputStreamClose\<close>; no context
  parameters are passed. The environment of that context is the caller's with one more
  local reference, the one to the class of the stream. The path initialiser returns what
  \<^verbatim>\<open>whisper_init_from_file_with_params\<close> returns on the path and the engine's default
  context parameters, and builds no loader. In both, the handle is the context pointer
  itself, so it is 0 when the engine returns \<^verbatim>\<open>NULL\<close>.
\<close>

theorem initContext_wiring:
  "Java_com_whispercpp_whisper_WhisperLib_00024Companion_initContextFromInputStream
       api jenv engine stream
     = (case whisper_init api
               \<lparr>loader_context =
                  \<lparr>offset = 0, env = jenv\<lparr>local_refs := Suc (local_refs jenv)\<rparr>,
                   input_stream = stream\<rparr>,
                read = inputStreamRead, eof = inputStreamEof, close = inputStreamClose\<rparr>
               engine of
          Inl f \<Rightarrow> Inl f
        | Inr (ctx, inp_ctx, engine') \<Rightarrow> Inr (ctx, env inp_ctx, input_stream inp_ctx, engine'))
   \<and> Java_com_whispercpp_whisper_WhisperLib_initContext api jenv engine model_path_str
     = (case whisper_init_from_file_with_params api model_path_str
               (whisper_context_default_params api) engine of
          (ctx, engine') \<Rightarrow> (ctx, jenv, engine'))"
  by (simp add: Java_com_whispercpp_whisper_WhisperLib_00024Companion_initContextFromInputStream_def
        Java_com_whispercpp_whisper_WhisperLib_initContext_def GetObjectClass_def jni_defs
      split: prod.splits)

theorem initContext_wiring_example:
  "(case Java_com_whispercpp_whisper_WhisperLib_00024Companion_initContextFromInputStream
           (stub_engine 0) fresh_env [] (ByteArrayInputStream ten_bytes) of
      Inl f \<Rightarrow> False
    | Inr (h, env', stream', engine') \<Rightarrow>
        h = 0x7000 \<and> env' = \<lparr>logcat = [], held = [], local_refs = 1\<rparr>
        \<and> this stream' = [5, 6, 7, 8, 9, 10] \<and> engine' = [''whisper_init''])
   \<and> (case Java_com_whispercpp_whisper_WhisperLib_00024Companion_initContextFromInputStream
           (stub_engine 0) fresh_env [] (ByteArrayInputStream [1, 2]) of
      Inl f \<Rightarrow> False
    | Inr (h, env', stream', engine') \<Rightarrow>
        h = 0 \<and> local_refs env' = 1 \<and> this stream' = [])
   \<and> Java_com_whispercpp_whisper_WhisperLib_initContext
       (stub_engine 0) fresh_env [] ''/data/ggml-tiny.bin''
     = (0x7000, fresh_env, [''whisper_init_from_file_with_params''])
   \<and> Java_com_whispercpp_whisper_WhisperLib_initContext
       (stub_engine 0) fresh_env [] ''/data/none.bin''
     = (0, fresh_env, [''whisper_init_from_file_with_params''])"
  using initContext_wiring
          [where api = "stub_engine 0" and jenv = fresh_env and engine = "[]"
             and stream = "ByteArrayInputStream ten_bytes"
             and model_path_str = "''/data/ggml-tiny.bin''"]
        initContext_wiring
          [where api = "stub_engine 0" and jenv = fresh_env and engine = "[]"
             and stream = "ByteArrayInputStream [1, 2]"
             and model_path_str = "''/data/none.bin''"]
  by (simp add: stub_engine_def fresh_env_def ten_bytes_def ByteArrayInputStream_def
        inputStreamRead_def CallIntMethod_available_def CallIntMethod_read_def
        min_int_def word_sless_alt int_of_size_t_of_jint NewByteArray_def memcpy_def
        store_bytes_def jni_defs inputStreamClose_def)

text \<open>
  C7. For every handle, \<^verbatim>\<open>freeContext\<close> is the engine's \<^verbatim>\<open>whisper_free\<close> on that handle
  and nothing else: no test of the handle comes first, and a second call on the same
  handle reaches the engine again.
\<close>

theorem freeContext_unconditional:
  "Java_com_whispercpp_whisper_WhisperLib_Companion_freeContext api engine context_ptr
     = whisper_free api context_ptr engine
   \<and> Java_com_whispercpp_whisper_WhisperLib_Companion_freeContext api
       (Java_com_whispercpp_whisper_WhisperLib_Companion_freeContext api engine context_ptr)
       context_ptr
     = whisper_free api context_ptr (whisper_free api context_ptr engine)"
  by (simp add: Java_com_whispercpp_whisper_WhisperLib_Companion_freeContext_def)

theorem freeContext_unconditional_example:
  "Java_com_whispercpp_whisper_WhisperLib_Companion_freeContext (stub_engine 0) [] 0
     = [''whisper_free'']
   \<and> Java_com_whispercpp_whisper_WhisperLib_Companion_freeContext (stub_engine 0)
       (Java_com_whispercpp_whisper_WhisperLib_Companion_freeContext (stub_engine 0) [] 0x7000)
       0x7000
     = [''whisper_free'', ''whisper_free'']"
  using freeContext_unconditional [of "stub_engine 0" "[]" 0]
        freeContext_unconditional [of "stub_engine 0" "[]" "0x7000"]
  by (simp add: stub_engine_def Java_com_whispercpp_whisper_WhisperLib_Companion_freeContext_def)

section \<open>Reading the segments back\<close>

text \<open>
  C8. For every handle and every index, in range or not, the segment count, text, start
  time and end time that the binding returns are the values of the engine's
  \<^verbatim>\<open>whisper_full_n_segments\<close>, \<^verbatim>\<open>whisper_full_get_segment_text\<close>,
  \<^verbatim>\<open>whisper_full_get_segment_t0\<close> and \<^verbatim>\<open>whisper_full_get_segment_t1\<close> on the same handle
  and the same index.
\<close>

theorem segment_accessors_passthrough:
  "Java_com_whispercpp_whisper_WhisperLib_getTextSegmentCount api engine context_ptr
     = whisper_full_n_segments api context_ptr engine
   \<and> Java_com_whispercpp_whisper_WhisperLib_getTextSegment api engine context_ptr index
     = whisper_full_get_segment_text api context_ptr index engine
   \<and> Java_com_whispercpp_whisper_WhisperLib_getTextSegmentT0 api engine context_ptr index
     = whisper_full_get_segment_t0 api context_ptr index engine
   \<and> Java_com_whispercpp_whisper_WhisperLib_getTextSegmentT1 api engine context_ptr index
     = whisper_full_get_segment_t1 api context_ptr index engine"
  by (simp add: Java_com_whispercpp_whisper_WhisperLib_getTextSegmentCount_def
        Java_com_whispercpp_whisper_WhisperLib_getTextSegment_def
        Java_com_whispercpp_whisper_WhisperLib_getTextSegmentT0_def
        Java_com_whispercpp_whisper_WhisperLib_getTextSegmentT1_def NewStringUTF_def)

theorem segment_accessors_passthrough_example:
  "Java_com_whispercpp_whisper_WhisperLib_getTextSegmentCount
     (stub_engine 0) [''one'', ''two''] 0x7000 = 2
   \<and> Java_com_whispercpp_whisper_WhisperLib_getTextSegment
       (stub_engine 0) [''one'', ''two''] 0x7000 1 = ''two''
   \<and> Java_com_whispercpp_whisper_WhisperLib_getTextSegment
       (stub_engine 0) [''one'', ''two''] 0x7000 7 = []
   \<and> Java_com_whispercpp_whisper_WhisperLib_getTextSegmentT0
       (stub_engine 0) [''one'', ''two''] 0x7000 7 = 700
   \<and> Java_com_whispercpp_whisper_WhisperLib_getTextSegmentT1
       (stub_engine 0) [''one'', ''two''] 0x7000 (- 1) = 0"
  using segment_accessors_passthrough [of "stub_engine 0" "[''one'', ''two'']" "0x7000" 1]
        segment_accessors_passthrough [of "stub_engine 0" "[''one'', ''two'']" "0x7000" 7]
        segment_accessors_passthrough [of "stub_engine 0" "[''one'', ''two'']" "0x7000" "- 1"]
  by (simp add: stub_engine_def
        Java_com_whispercpp_whisper_WhisperLib_getTextSegmentCount_def
        Java_com_whispercpp_whisper_WhisperLib_getTextSegment_def
        Java_com_whispercpp_whisper_WhisperLib_getTextSegmentT0_def
        Java_com_whispercpp_whisper_WhisperLib_getTextSegmentT1_def NewStringUTF_def)

end
